theory Spec2Isabelle
  imports Main "HOL-Library.AList"
begin

section \<open>The queue service of the email dispatcher\<close>

text \<open>
  The development embeds \<^verbatim>\<open>app/src/services/queueSvc.js\<close>: the class
  \<^verbatim>\<open>QueueService\<close> with its methods \<^verbatim>\<open>enqueue\<close>, \<^verbatim>\<open>updateContent\<close>,
  \<^verbatim>\<open>updateStatus\<close>, \<^verbatim>\<open>sendMessage\<close> and \<^verbatim>\<open>removeJob\<close>. Every method is
  \<^verbatim>\<open>async\<close>; it is modelled as a function from the state of the world to an outcome
  (a thrown error, \<open>Inl\<close>, or a returned value, \<open>Inr\<close>) and the state after the call.
\<close>

subsection \<open>JavaScript values\<close>

text \<open>
  The primitive values that job ids, clients and message ids can take. A property that
  an object lacks reads as \<open>JUndefined\<close>.
\<close>

datatype jsval = JUndefined | JNull | JBool bool | JNum int | JStr string

text \<open>What \<^verbatim>\<open>if (v)\<close> and \<^verbatim>\<open>v && ...\<close> test.\<close>

fun truthy :: "jsval \<Rightarrow> bool" where
  "truthy JUndefined = False"
| "truthy JNull = False"
| "truthy (JBool b) = b"
| "truthy (JNum n) = (n \<noteq> 0)"
| "truthy (JStr s) = (s \<noteq> [])"

subsection \<open>Data model\<close>

text \<open>\<^verbatim>\<open>job.data\<close>, as \<^verbatim>\<open>enqueue\<close> builds it: \<^verbatim>\<open>{ client, messageId }\<close>.\<close>

record job_data =
  client :: jsval
  messageId :: jsval

text \<open>
  A job object as the queue hands it out: \<^verbatim>\<open>job.id\<close> and \<^verbatim>\<open>job.data\<close>
  (\<open>None\<close> when the payload is \<^verbatim>\<open>null\<close>).
\<close>

record job =
  jid :: jsval
  jdata :: "job_data option"

text \<open>What the queue keeps for a job id: the payload and the queue's own state name.\<close>

record qjob =
  qdata :: "job_data option"
  qstate :: string

text \<open>
  Modelled from the spec: \<^verbatim>\<open>queueState\<close> of \<^verbatim>\<open>components/state\<close>, which is not
  among the sources; the spec's status enumeration. The service itself names only
  \<open>ENQUEUED\<close> and \<open>REMOVED\<close>.
\<close>

datatype status = ENQUEUED | PROCESSING | COMPLETED | FAILED | REMOVED

type_synonym email = string

text \<open>What the mail transport returns: \<^verbatim>\<open>smtpResult.messageId\<close>, \<^verbatim>\<open>smtpResult.response\<close>.\<close>

record smtp_result =
  smtp_messageId :: string
  smtp_response :: string

text \<open>The object \<^verbatim>\<open>sendMessage\<close> builds: \<^verbatim>\<open>{ smtpMsgId, response }\<close>.\<close>

record send_result =
  smtpMsgId :: string
  response :: string

text \<open>A message record of the data store; \<open>email = None\<close> once the content is deleted.\<close>

record message =
  msgId :: jsval
  email :: "email option"
  status :: "status option"
  statusDescription :: "string option"
  sendResult :: "send_result option"

text \<open>
  The three error classes the module exports, with the values their messages
  interpolate, and \<open>Failure\<close> for any other \<^verbatim>\<open>Error\<close> a collaborator rejects with
  (its \<^verbatim>\<open>message\<close>).
\<close>

datatype error =
    ClientMismatchError jsval jsval
  | DataIntegrityError jsval
  | UncancellableError jsval
  | Failure string

type_synonym opts = "(string \<times> jsval) list"

text \<open>The calls the service makes on its three collaborators.\<close>

datatype call =
    DsUpdateStatus jsval jsval status "string option"
  | DsReadMessage jsval jsval
  | DsUpdateMessageSendResult jsval jsval send_result
  | DsDeleteMessageEmail jsval jsval
  | MailSend "email option"
  | QueueAdd job_data opts
  | QueueGetJob jsval
  | JobGetState jsval
  | JobRemove jsval
  | JobUpdate jsval "job_data option"

text \<open>
  \<^verbatim>\<open>log.info(prefix, message)\<close> and \<^verbatim>\<open>log.error(prefix, message)\<close> with the values
  the message interpolates (for an error entry also the caught error, whose
  \<^verbatim>\<open>message\<close> is interpolated), and \<^verbatim>\<open>log.error(e)\<close> of an error alone.
\<close>

datatype log_entry =
    Info string "jsval list"
  | Error string "jsval list" error
  | ErrorObj error

text \<open>
  A call that \<^verbatim>\<open>removeJob\<close> starts without \<^verbatim>\<open>await\<close>: the promise is dropped and the
  work goes on after \<^verbatim>\<open>removeJob\<close> has returned.
\<close>

datatype task =
    StatusWrite jsval jsval status
  | ContentScrub job

text \<open>
  The state of the world. \<open>store\<close> is the data store, keyed by (client, messageId);
  \<open>jobs\<close> is the queue, keyed by job id; \<open>mailer\<close> is the answer of the mail
  transport to an envelope. \<open>faults\<close> says which collaborator calls are rejected for
  unavailability: call number \<open>n\<close> (counted from the start of the trace) is rejected
  with message \<open>m\<close> when \<open>faults n = Some m\<close>. \<open>trace\<close> lists every collaborator call
  made so far with whether it succeeded, \<open>logs\<close> what was logged, \<open>pending\<close> the
  un-awaited calls not yet run.
\<close>

record world =
  store :: "jsval \<times> jsval \<Rightarrow> message"
  jobs :: "jsval \<Rightarrow> qjob option"
  mailer :: "email option \<Rightarrow> string + smtp_result"
  faults :: "nat \<Rightarrow> string option"
  trace :: "(call \<times> bool) list"
  logs :: "log_entry list"
  pending :: "task list"

type_synonym 'a io = "world \<Rightarrow> (error + 'a) \<times> world"

subsection \<open>Control flow of an async function\<close>

text \<open>\<^verbatim>\<open>return v\<close> and \<^verbatim>\<open>throw e\<close>.\<close>

definition resolve :: "'a \<Rightarrow> 'a io" where
  "resolve a w = (Inr a, w)"

definition reject :: "error \<Rightarrow> 'a io" where
  "reject e w = (Inl e, w)"

text \<open>
  \<^verbatim>\<open>const x = await m; k(x)\<close>: a rejection of \<open>m\<close> leaves the function at once, as a
  throw.
\<close>

definition await :: "'a io \<Rightarrow> ('a \<Rightarrow> 'b io) \<Rightarrow> 'b io" where
  "await m k w = (case m w of (Inl e, w') \<Rightarrow> (Inl e, w') | (Inr a, w') \<Rightarrow> k a w')"

text \<open>\<^verbatim>\<open>try { m } catch (e) { h(e) }\<close>, and \<^verbatim>\<open>m.catch(h)\<close> on a promise.\<close>

definition try_catch :: "'a io \<Rightarrow> (error \<Rightarrow> 'a io) \<Rightarrow> 'a io" where
  "try_catch m h w = (case m w of (Inl e, w') \<Rightarrow> h e w' | (Inr a, w') \<Rightarrow> (Inr a, w'))"

definition log :: "log_entry \<Rightarrow> unit io" where
  "log l w = (Inr (), w\<lparr>logs := logs w @ [l]\<rparr>)"

text \<open>A call started and not awaited.\<close>

definition spawn :: "task \<Rightarrow> unit io" where
  "spawn t w = (Inr (), w\<lparr>pending := pending w @ [t]\<rparr>)"

subsection \<open>The collaborators\<close>

text \<open>
  One awaited call \<open>c\<close> on a collaborator whose effect is \<open>f\<close>. The call is rejected
  when the fault plan says so, or when \<open>f\<close> itself fails; a rejected call changes
  nothing. Either way the trace records it.
\<close>

definition invoke :: "call \<Rightarrow> (world \<Rightarrow> string + 'a \<times> world) \<Rightarrow> 'a io" where
  "invoke c f w =
     (case faults w (length (trace w)) of
        Some m \<Rightarrow> (Inl (Failure m), w\<lparr>trace := trace w @ [(c, False)]\<rparr>)
      | None \<Rightarrow>
          (case f w of
             Inl m \<Rightarrow> (Inl (Failure m), w\<lparr>trace := trace w @ [(c, False)]\<rparr>)
           | Inr (a, w') \<Rightarrow> (Inr a, w'\<lparr>trace := trace w @ [(c, True)]\<rparr>)))"

text \<open>
  Modelled from the spec: the class \<^verbatim>\<open>DataService\<close> of \<^verbatim>\<open>services/dataSvc\<close>, which
  is not among the sources. The spec's contract: \<^verbatim>\<open>updateStatus(client, messageId,
  status, description?)\<close>, \<^verbatim>\<open>readMessage(client, messageId) -> Message\<close>,
  \<^verbatim>\<open>updateMessageSendResult(client, messageId, {smtpMsgId, response})\<close>,
  \<^verbatim>\<open>deleteMessageEmail(client, messageId)\<close>; each writes what its name says to the
  record of (client, messageId), and all fail on unavailability.
\<close>

definition ds_updateStatus :: "jsval \<Rightarrow> jsval \<Rightarrow> status \<Rightarrow> string option \<Rightarrow> unit io" where
  "ds_updateStatus c m s d =
     invoke (DsUpdateStatus c m s d)
       (\<lambda>w. Inr ((), w\<lparr>store := (store w)
          ((c, m) := (store w (c, m))\<lparr>status := Some s, statusDescription := d\<rparr>)\<rparr>))"

text \<open>
  Modelled from the spec: \<^verbatim>\<open>readMessage\<close> of the absent \<^verbatim>\<open>DataService\<close>; it
  returns the record of (client, messageId).
\<close>

definition ds_readMessage :: "jsval \<Rightarrow> jsval \<Rightarrow> message io" where
  "ds_readMessage c m = invoke (DsReadMessage c m) (\<lambda>w. Inr (store w (c, m), w))"

text \<open>
  Modelled from the spec: \<^verbatim>\<open>updateMessageSendResult\<close> of the absent
  \<^verbatim>\<open>DataService\<close>; it stores the send result in the record.
\<close>

definition ds_updateMessageSendResult :: "jsval \<Rightarrow> jsval \<Rightarrow> send_result \<Rightarrow> unit io" where
  "ds_updateMessageSendResult c m r =
     invoke (DsUpdateMessageSendResult c m r)
       (\<lambda>w. Inr ((), w\<lparr>store := (store w)
          ((c, m) := (store w (c, m))\<lparr>sendResult := Some r\<rparr>)\<rparr>))"

text \<open>
  Modelled from the spec: \<^verbatim>\<open>deleteMessageEmail\<close> of the absent \<^verbatim>\<open>DataService\<close>;
  it deletes the email body of the record.
\<close>

definition ds_deleteMessageEmail :: "jsval \<Rightarrow> jsval \<Rightarrow> unit io" where
  "ds_deleteMessageEmail c m =
     invoke (DsDeleteMessageEmail c m)
       (\<lambda>w. Inr ((), w\<lparr>store := (store w) ((c, m) := (store w (c, m))\<lparr>email := None\<rparr>)\<rparr>))"

text \<open>
  Modelled from the spec: the class \<^verbatim>\<open>EmailService\<close> of \<^verbatim>\<open>services/emailSvc\<close>, which
  is not among the sources. The spec's contract: \<^verbatim>\<open>send(envelope) -> { messageId,
  response }\<close>, failing with a transport error.
\<close>

definition mail_send :: "email option \<Rightarrow> smtp_result io" where
  "mail_send e =
     invoke (MailSend e)
       (\<lambda>w. case mailer w e of Inl m \<Rightarrow> Inl m | Inr r \<Rightarrow> Inr (r, w))"

text \<open>
  Modelled from the spec: the queue of \<^verbatim>\<open>services/queueConn\<close> and its job objects,
  which are not among the sources. The spec's contract: \<^verbatim>\<open>add(payload,
  options{jobId, delay?}) -> Job\<close>, idempotent on a duplicate \<^verbatim>\<open>jobId\<close>;
  \<^verbatim>\<open>getJob(id) -> Job | null\<close>; a job's \<^verbatim>\<open>getState()\<close>, \<^verbatim>\<open>remove()\<close> and
  \<^verbatim>\<open>update(payload)\<close>. A job added with a positive delay is in state \<open>''delayed''\<close>,
  any other new job in state \<open>''waiting''\<close>; the state of a job that the queue does not
  hold is none of the named ones.
\<close>

text \<open>
  Modelled from the spec: how the absent queue reads the options \<open>jobId\<close> and
  \<open>delay\<close> of \<^verbatim>\<open>add\<close>.
\<close>

definition opt_jobId :: "opts \<Rightarrow> jsval" where
  "opt_jobId os = (case map_of os ''jobId'' of Some v \<Rightarrow> v | None \<Rightarrow> JUndefined)"

text \<open>Modelled from the spec: a positive \<open>delay\<close> option makes the new job delayed.\<close>

definition opt_delayed :: "opts \<Rightarrow> bool" where
  "opt_delayed os = (case map_of os ''delay'' of Some (JNum n) \<Rightarrow> 0 < n | _ \<Rightarrow> False)"

text \<open>
  Modelled from the spec: \<^verbatim>\<open>add\<close> of the absent queue. A job id that is taken
  gives the job already there and adds nothing.
\<close>

definition q_add :: "job_data \<Rightarrow> opts \<Rightarrow> job io" where
  "q_add payload os =
     invoke (QueueAdd payload os)
       (\<lambda>w. case jobs w (opt_jobId os) of
               Some qj \<Rightarrow> Inr (\<lparr>jid = opt_jobId os, jdata = qdata qj\<rparr>, w)
             | None \<Rightarrow>
                 Inr (\<lparr>jid = opt_jobId os, jdata = Some payload\<rparr>,
                      w\<lparr>jobs := (jobs w) (opt_jobId os \<mapsto>
                         \<lparr>qdata = Some payload,
                          qstate = (if opt_delayed os then ''delayed'' else ''waiting'')\<rparr>)\<rparr>))"

text \<open>Modelled from the spec: \<^verbatim>\<open>getJob\<close> of the absent queue.\<close>

definition q_getJob :: "jsval \<Rightarrow> job option io" where
  "q_getJob jobId =
     invoke (QueueGetJob jobId)
       (\<lambda>w. Inr (map_option (\<lambda>qj. \<lparr>jid = jobId, jdata = qdata qj\<rparr>) (jobs w jobId), w))"

text \<open>Modelled from the spec: \<^verbatim>\<open>getState\<close> of a job of the absent queue.\<close>

definition job_getState :: "job \<Rightarrow> string io" where
  "job_getState j =
     invoke (JobGetState (jid j))
       (\<lambda>w. case jobs w (jid j) of
               Some qj \<Rightarrow> Inr (qstate qj, w)
             | None \<Rightarrow> Inr (''stuck'', w))"

text \<open>Modelled from the spec: \<^verbatim>\<open>remove\<close> of a job of the absent queue.\<close>

definition job_remove :: "job \<Rightarrow> unit io" where
  "job_remove j =
     invoke (JobRemove (jid j)) (\<lambda>w. Inr ((), w\<lparr>jobs := (jobs w) (jid j := None)\<rparr>))"

text \<open>
  Modelled from the spec: \<^verbatim>\<open>update\<close> of a job of the absent queue.
  \<^verbatim>\<open>job.update(payload)\<close> replaces the payload, in the queue and in the job object
  at hand; the result is the job object after the call.
\<close>

definition job_update :: "job \<Rightarrow> job_data option \<Rightarrow> job io" where
  "job_update j payload =
     invoke (JobUpdate (jid j) payload)
       (\<lambda>w. Inr (j\<lparr>jdata := payload\<rparr>,
                 w\<lparr>jobs := (case jobs w (jid j) of
                               Some qj \<Rightarrow> (jobs w) (jid j \<mapsto> qj\<lparr>qdata := payload\<rparr>)
                             | None \<Rightarrow> jobs w)\<rparr>))"

subsection \<open>QueueService\<close>

text \<open>
  \<^verbatim>\<open>enqueue(client, message, opts = {})\<close>. \<^verbatim>\<open>Object.assign(opts, { jobId:
  message.messageId })\<close> sets the key \<open>jobId\<close> of the options, in place when the
  options have it already. The status write is awaited outside any handler; the
  \<^verbatim>\<open>then\<close> and \<^verbatim>\<open>catch\<close> handlers hang off the promise of \<^verbatim>\<open>queue.add\<close>.
\<close>

definition enqueue :: "jsval \<Rightarrow> message \<Rightarrow> opts \<Rightarrow> unit io" where
  "enqueue cl msg os =
     await (ds_updateStatus cl (msgId msg) ENQUEUED None) (\<lambda>_.
       try_catch
         (await (q_add \<lparr>client = cl, messageId = msgId msg\<rparr>
                   (AList.update ''jobId'' (msgId msg) os))
            (\<lambda>j. log (Info ''enqueue'' [jid j])))
         (\<lambda>e. log (ErrorObj e)))"

text \<open>
  \<^verbatim>\<open>updateContent(job)\<close>. The result is the job object after the call, since
  \<^verbatim>\<open>job.update(null)\<close> changes it. The handler reads \<^verbatim>\<open>job.id\<close>, which throws a
  \<^verbatim>\<open>TypeError\<close> on a job that is \<^verbatim>\<open>null\<close> or \<^verbatim>\<open>undefined\<close>.
\<close>

definition updateContent :: "job option \<Rightarrow> job option io" where
  "updateContent jb =
     try_catch
       (case jb of
          None \<Rightarrow> resolve None
        | Some j \<Rightarrow>
            (case jdata j of
               None \<Rightarrow> resolve (Some j)
             | Some d \<Rightarrow>
                 await (if truthy (messageId d) \<and> truthy (client d)
                        then ds_deleteMessageEmail (client d) (messageId d)
                        else resolve ())
                   (\<lambda>_. await (job_update j None) (\<lambda>j'. resolve (Some j')))))
       (\<lambda>e. case jb of
               None \<Rightarrow> reject (Failure ''TypeError'')
             | Some j \<Rightarrow> await (log (Error ''updateContent'' [jid j] e)) (\<lambda>_. resolve jb))"

text \<open>\<^verbatim>\<open>updateStatus(job, status, description)\<close>.\<close>

definition updateStatus :: "job option \<Rightarrow> status \<Rightarrow> string option \<Rightarrow> unit io" where
  "updateStatus jb s descr =
     (case jb of
        None \<Rightarrow> resolve ()
      | Some j \<Rightarrow>
          (case jdata j of
             None \<Rightarrow> resolve ()
           | Some d \<Rightarrow>
               if truthy (messageId d) \<and> truthy (client d)
               then ds_updateStatus (client d) (messageId d) s descr
               else resolve ()))"

text \<open>
  \<^verbatim>\<open>sendMessage(job)\<close>. The handler logs twice: the message with client, message id
  and \<^verbatim>\<open>e.message\<close>, then the error pretty-printed.
\<close>

definition sendMessage :: "job option \<Rightarrow> unit io" where
  "sendMessage jb =
     (case jb of
        None \<Rightarrow> resolve ()
      | Some j \<Rightarrow>
          (case jdata j of
             None \<Rightarrow> resolve ()
           | Some d \<Rightarrow>
               if truthy (messageId d) \<and> truthy (client d)
               then
                 try_catch
                   (await (ds_readMessage (client d) (messageId d)) (\<lambda>msg.
                    await (mail_send (email msg)) (\<lambda>smtpResult.
                    ds_updateMessageSendResult (client d) (messageId d)
                      \<lparr>smtpMsgId = smtp_messageId smtpResult,
                       response = smtp_response smtpResult\<rparr>)))
                   (\<lambda>e. await (log (Error ''sendMessage'' [client d, messageId d] e))
                           (\<lambda>_. log (ErrorObj e)))
               else resolve ()))"

text \<open>
  \<^verbatim>\<open>removeJob(client, jobId)\<close>. After \<^verbatim>\<open>await job.remove()\<close> the status write and
  \<^verbatim>\<open>this.updateContent(job)\<close> are called without \<^verbatim>\<open>await\<close>.
\<close>

definition removeJob :: "jsval \<Rightarrow> jsval \<Rightarrow> bool io" where
  "removeJob cl jobId =
     await (q_getJob jobId) (\<lambda>jb.
       case jb of
         None \<Rightarrow> resolve False
       | Some j \<Rightarrow>
           (case jdata j of
              None \<Rightarrow> resolve False
            | Some d \<Rightarrow>
                if truthy (client d) \<and> truthy (messageId d)
                then
                  if messageId d \<noteq> jobId then reject (DataIntegrityError jobId)
                  else if client d \<noteq> cl then reject (ClientMismatchError jobId (client d))
                  else
                    await (job_getState j) (\<lambda>st.
                      if st \<noteq> ''delayed'' then reject (UncancellableError jobId)
                      else
                        await (job_remove j) (\<lambda>_.
                        await (spawn (StatusWrite cl (messageId d) REMOVED)) (\<lambda>_.
                        await (spawn (ContentScrub j)) (\<lambda>_.
                        await (log (Info ''removeJob'' [messageId d])) (\<lambda>_.
                        resolve True)))))
                else resolve False))"



subsection \<open>Vocabulary of the properties\<close>

text \<open>
  \<open>rejects w i\<close> is the fault, if any, that the fault plan holds for the \<open>i\<close>-th
  collaborator call made from \<open>w\<close> on (\<open>0\<close> for the next call).
\<close>

definition rejects :: "world \<Rightarrow> nat \<Rightarrow> string option" where
  "rejects w i = faults w (length (trace w) + i)"

text \<open>The three error classes of the module, as opposed to a collaborator's failure.\<close>

fun typed :: "error \<Rightarrow> bool" where
  "typed (Failure m) = False"
| "typed e = True"

subsection \<open>A concrete world\<close>

text \<open>
  Client \<open>acme\<close>; every message has the body \<open>hello\<close> and status \<open>ENQUEUED\<close>; the
  transport answers \<^verbatim>\<open>{ messageId: 'abc', response: '250 OK' }\<close>. Job \<open>m1\<close> is active,
  \<open>m2\<close> is delayed, \<open>m3\<close> records another message id than its own, \<open>m4\<close> has an empty
  client, \<open>m5\<close> has no payload.
\<close>

definition demo :: world where
  "demo =
     \<lparr>store = (\<lambda>k. \<lparr>msgId = snd k, email = Some ''hello'', status = Some ENQUEUED,
                     statusDescription = None, sendResult = None\<rparr>),
      jobs = [JStr ''m1'' \<mapsto> \<lparr>qdata = Some \<lparr>client = JStr ''acme'', messageId = JStr ''m1''\<rparr>,
                              qstate = ''active''\<rparr>,
              JStr ''m2'' \<mapsto> \<lparr>qdata = Some \<lparr>client = JStr ''acme'', messageId = JStr ''m2''\<rparr>,
                              qstate = ''delayed''\<rparr>,
              JStr ''m3'' \<mapsto> \<lparr>qdata = Some \<lparr>client = JStr ''acme'', messageId = JStr ''m9''\<rparr>,
                              qstate = ''delayed''\<rparr>,
              JStr ''m4'' \<mapsto> \<lparr>qdata = Some \<lparr>client = JStr [], messageId = JStr ''m4''\<rparr>,
                              qstate = ''delayed''\<rparr>,
              JStr ''m5'' \<mapsto> \<lparr>qdata = None, qstate = ''delayed''\<rparr>],
      mailer = (\<lambda>e. case e of
                       None \<Rightarrow> Inl ''No envelope''
                     | Some b \<Rightarrow> Inr \<lparr>smtp_messageId = ''abc'', smtp_response = ''250 OK''\<rparr>),
      faults = (\<lambda>n. None),
      trace = [],
      logs = [],
      pending = []\<rparr>"

text \<open>The same world with collaborator call number \<open>n\<close> rejected.\<close>

definition down_at :: "nat \<Rightarrow> world \<Rightarrow> world" where
  "down_at n w = w\<lparr>faults := (\<lambda>i. if i = n then Some ''ECONNREFUSED'' else None)\<rparr>"

text \<open>The same world with every email body deleted: the transport then fails.\<close>

definition scrubbed :: "world \<Rightarrow> world" where
  "scrubbed w = w\<lparr>store := (\<lambda>k. (store w k)\<lparr>email := None\<rparr>)\<rparr>"

definition demo_job :: "string \<Rightarrow> job" where
  "demo_job m = \<lparr>jid = JStr m, jdata = Some \<lparr>client = JStr ''acme'', messageId = JStr m\<rparr>\<rparr>"

section \<open>Properties\<close>

subsection \<open>Unfolding the model\<close>

lemmas io_defs =
  resolve_def reject_def await_def try_catch_def log_def spawn_def invoke_def

lemmas ds_defs =
  ds_updateStatus_def ds_readMessage_def ds_updateMessageSendResult_def
  ds_deleteMessageEmail_def

lemmas q_defs =
  q_add_def q_getJob_def job_getState_def job_remove_def job_update_def mail_send_def

subsection \<open>removeJob\<close>

text \<open>
  C8. For every job id for which the queue's \<^verbatim>\<open>getJob\<close> lookup returns no job,
  \<^verbatim>\<open>removeJob\<close> returns \<^verbatim>\<open>false\<close> and signals no error; the lookup is the only
  collaborator call it makes, and nothing else changes.
\<close>

theorem removeJob_not_found:
  assumes "fst (q_getJob jobId w) = Inr None"
  shows "removeJob cl jobId w =
           (Inr False, w\<lparr>trace := trace w @ [(QueueGetJob jobId, True)]\<rparr>)"
  using assms
  by (auto simp add: removeJob_def io_defs q_defs split: option.splits)

theorem removeJob_not_found_witness:
  "fst (q_getJob (JStr ''m7'') demo) = Inr None \<and>
   removeJob (JStr ''acme'') (JStr ''m7'') demo =
     (Inr False, demo\<lparr>trace := trace demo @ [(QueueGetJob (JStr ''m7''), True)]\<rparr>)"
proof -
  have h: "fst (q_getJob (JStr ''m7'') demo) = Inr None"
    by (simp add: q_defs io_defs demo_def)
  from h removeJob_not_found [OF h, of "JStr ''acme''"] show ?thesis by simp
qed

text \<open>
  C10. When the queue returns a job whose data is missing, or whose data lacks a truthy
  client or a truthy message id (the empty string included), \<^verbatim>\<open>removeJob\<close> returns
  \<^verbatim>\<open>false\<close>, the answer for a job that does not exist, and signals no
  \<^verbatim>\<open>DataIntegrityError\<close>; it removes nothing and writes nothing: the lookup is the
  only collaborator call, and the world is otherwise unchanged.
\<close>

theorem removeJob_ill_formed:
  assumes "fst (q_getJob jobId w) = Inr (Some j)"
    and "jdata j = None \<or>
         (\<exists>d. jdata j = Some d \<and> (\<not> truthy (client d) \<or> \<not> truthy (messageId d)))"
  shows "removeJob cl jobId w =
           (Inr False, w\<lparr>trace := trace w @ [(QueueGetJob jobId, True)]\<rparr>)"
  using assms
  by (auto simp add: removeJob_def io_defs q_defs split: option.splits)

theorem removeJob_ill_formed_witness:
  "fst (q_getJob (JStr ''m4'') demo) =
     Inr (Some \<lparr>jid = JStr ''m4'',
                jdata = Some \<lparr>client = JStr [], messageId = JStr ''m4''\<rparr>\<rparr>) \<and>
   \<not> truthy (JStr []) \<and>
   removeJob (JStr []) (JStr ''m4'') demo =
     (Inr False, demo\<lparr>trace := trace demo @ [(QueueGetJob (JStr ''m4''), True)]\<rparr>) \<and>
   fst (q_getJob (JStr ''m5'') demo) = Inr (Some \<lparr>jid = JStr ''m5'', jdata = None\<rparr>) \<and>
   removeJob (JStr ''acme'') (JStr ''m5'') demo =
     (Inr False, demo\<lparr>trace := trace demo @ [(QueueGetJob (JStr ''m5''), True)]\<rparr>)"
proof -
  have h4: "fst (q_getJob (JStr ''m4'') demo) =
     Inr (Some \<lparr>jid = JStr ''m4'',
                jdata = Some \<lparr>client = JStr [], messageId = JStr ''m4''\<rparr>\<rparr>)"
    by (simp add: q_defs io_defs demo_def)
  have h5: "fst (q_getJob (JStr ''m5'') demo) = Inr (Some \<lparr>jid = JStr ''m5'', jdata = None\<rparr>)"
    by (simp add: q_defs io_defs demo_def)
  from h4 h5
    removeJob_ill_formed [OF h4, of "JStr []"]
    removeJob_ill_formed [OF h5, of "JStr ''acme''"]
  show ?thesis by simp
qed

text \<open>
  C1. When the queue holds a job under the id, with a truthy client and a truthy message
  id in its data, the checks of \<^verbatim>\<open>removeJob\<close> come in a fixed order. A message id
  that differs from the job id gives \<^verbatim>\<open>DataIntegrityError\<close>, whoever the caller is
  and whatever the state of the job: the lookup is the only call made, the state is not
  queried. Otherwise a client that differs from the caller gives
  \<^verbatim>\<open>ClientMismatchError\<close>, again without a query of the state. Otherwise the state is
  queried, and a state other than \<open>delayed\<close> gives \<^verbatim>\<open>UncancellableError\<close>.
\<close>

theorem removeJob_check_order:
  assumes "jobs w jobId = Some qj" and "qdata qj = Some d"
    and "truthy (client d)" and "truthy (messageId d)"
    and "rejects w 0 = None"
  shows "(messageId d \<noteq> jobId \<longrightarrow>
            removeJob cl jobId w =
              (Inl (DataIntegrityError jobId),
               w\<lparr>trace := trace w @ [(QueueGetJob jobId, True)]\<rparr>)) \<and>
         (messageId d = jobId \<and> client d \<noteq> cl \<longrightarrow>
            removeJob cl jobId w =
              (Inl (ClientMismatchError jobId (client d)),
               w\<lparr>trace := trace w @ [(QueueGetJob jobId, True)]\<rparr>)) \<and>
         (messageId d = jobId \<and> client d = cl \<and>
          rejects w 1 = None \<and> qstate qj \<noteq> ''delayed'' \<longrightarrow>
            removeJob cl jobId w =
              (Inl (UncancellableError jobId),
               w\<lparr>trace := trace w @
                    [(QueueGetJob jobId, True), (JobGetState jobId, True)]\<rparr>))"
  using assms
  by (auto simp add: removeJob_def io_defs q_defs rejects_def)

text \<open>
  Job \<open>m3\<close> records message id \<open>m9\<close>: the integrity error wins although the caller is
  not the owner. Job \<open>m2\<close> is delayed and job \<open>m1\<close> active, both owned by \<open>acme\<close>.
\<close>

theorem removeJob_check_order_witness:
  "removeJob (JStr ''other'') (JStr ''m3'') demo =
     (Inl (DataIntegrityError (JStr ''m3'')),
      demo\<lparr>trace := trace demo @ [(QueueGetJob (JStr ''m3''), True)]\<rparr>) \<and>
   removeJob (JStr ''other'') (JStr ''m1'') demo =
     (Inl (ClientMismatchError (JStr ''m1'') (JStr ''acme'')),
      demo\<lparr>trace := trace demo @ [(QueueGetJob (JStr ''m1''), True)]\<rparr>) \<and>
   removeJob (JStr ''acme'') (JStr ''m1'') demo =
     (Inl (UncancellableError (JStr ''m1'')),
      demo\<lparr>trace := trace demo @
              [(QueueGetJob (JStr ''m1''), True), (JobGetState (JStr ''m1''), True)]\<rparr>)"
proof -
  have r: "rejects demo 0 = None" "rejects demo 1 = None"
    by (simp_all add: rejects_def demo_def)
  have j3: "jobs demo (JStr ''m3'') =
      Some \<lparr>qdata = Some \<lparr>client = JStr ''acme'', messageId = JStr ''m9''\<rparr>,
            qstate = ''delayed''\<rparr>"
    by (simp add: demo_def)
  have j1: "jobs demo (JStr ''m1'') =
      Some \<lparr>qdata = Some \<lparr>client = JStr ''acme'', messageId = JStr ''m1''\<rparr>,
            qstate = ''active''\<rparr>"
    by (simp add: demo_def)
  from r
    removeJob_check_order [OF j3, of "\<lparr>client = JStr ''acme'', messageId = JStr ''m9''\<rparr>"
      "JStr ''other''"]
    removeJob_check_order [OF j1, of "\<lparr>client = JStr ''acme'', messageId = JStr ''m1''\<rparr>"
      "JStr ''other''"]
    removeJob_check_order [OF j1, of "\<lparr>client = JStr ''acme'', messageId = JStr ''m1''\<rparr>"
      "JStr ''acme''"]
  show ?thesis by simp
qed

text \<open>
  C2. Whenever \<^verbatim>\<open>removeJob\<close> signals one of its three typed errors, the job is
  still in the queue and no write went to the data store: queue, data store, log and
  un-awaited calls are as before, and the only collaborator calls made are the lookup
  and, at most, the query of the state. So the stored status of the message is
  unchanged.
\<close>

theorem removeJob_error_no_effect:
  assumes "removeJob cl jobId w = (Inl e, w')" and "typed e"
  shows "jobs w' = jobs w \<and> store w' = store w \<and>
         pending w' = pending w \<and> logs w' = logs w \<and>
         (trace w' = trace w @ [(QueueGetJob jobId, True)] \<or>
          trace w' = trace w @ [(QueueGetJob jobId, True), (JobGetState jobId, True)])"
  using assms
  by (auto simp add: removeJob_def io_defs q_defs split: option.splits if_splits)

theorem removeJob_error_no_effect_witness:
  "removeJob (JStr ''acme'') (JStr ''m1'') demo =
     (Inl (UncancellableError (JStr ''m1'')),
      demo\<lparr>trace := [(QueueGetJob (JStr ''m1''), True), (JobGetState (JStr ''m1''), True)]\<rparr>) \<and>
   typed (UncancellableError (JStr ''m1'')) \<and>
   jobs (demo\<lparr>trace :=
      [(QueueGetJob (JStr ''m1''), True), (JobGetState (JStr ''m1''), True)]\<rparr>) = jobs demo \<and>
   store (demo\<lparr>trace :=
      [(QueueGetJob (JStr ''m1''), True), (JobGetState (JStr ''m1''), True)]\<rparr>) = store demo"
proof -
  have h: "removeJob (JStr ''acme'') (JStr ''m1'') demo =
     (Inl (UncancellableError (JStr ''m1'')),
      demo\<lparr>trace := [(QueueGetJob (JStr ''m1''), True), (JobGetState (JStr ''m1''), True)]\<rparr>)"
    by (simp add: removeJob_def io_defs q_defs demo_def)
  have t: "typed (UncancellableError (JStr ''m1''))" by simp
  from h t removeJob_error_no_effect [OF h t] show ?thesis by simp
qed







subsection \<open>enqueue\<close>

lemma jobId_assigned: "opt_jobId (AList.update ''jobId'' v os) = v"
  by (simp add: opt_jobId_def update_conv')

text \<open>
  C5. For every call of \<^verbatim>\<open>enqueue\<close>, in every world and under every fault plan, the
  collaborator calls are, in this order: the status write of \<open>ENQUEUED\<close> for (client,
  message id), and then, only when that write has succeeded, the submission to the
  queue. A rejected status write ends the call with no submission. The options
  submitted carry the message id under \<open>jobId\<close> whatever the options given, also when
  they had a \<open>jobId\<close> of their own; and when the queue accepts the submission, the
  queue holds a job under the message id and the id logged for the job is the message
  id.
\<close>

theorem enqueue_write_before_submit:
  "trace (snd (enqueue cl msg os w)) =
     trace w @
       (case rejects w 0 of
          Some m \<Rightarrow> [(DsUpdateStatus cl (msgId msg) ENQUEUED None, False)]
        | None \<Rightarrow>
            [(DsUpdateStatus cl (msgId msg) ENQUEUED None, True),
             (QueueAdd \<lparr>client = cl, messageId = msgId msg\<rparr>
                (AList.update ''jobId'' (msgId msg) os),
              rejects w 1 = None)]) \<and>
   opt_jobId (AList.update ''jobId'' (msgId msg) os) = msgId msg \<and>
   (rejects w 0 = Some m \<longrightarrow>
      fst (enqueue cl msg os w) = Inl (Failure m) \<and>
      jobs (snd (enqueue cl msg os w)) = jobs w) \<and>
   (rejects w 0 = None \<and> rejects w 1 = None \<longrightarrow>
      fst (enqueue cl msg os w) = Inr () \<and>
      jobs (snd (enqueue cl msg os w)) (msgId msg) \<noteq> None \<and>
      (jobs w (msgId msg) = None \<longrightarrow>
         map_option qdata (jobs (snd (enqueue cl msg os w)) (msgId msg)) =
           Some (Some \<lparr>client = cl, messageId = msgId msg\<rparr>)) \<and>
      status (store (snd (enqueue cl msg os w)) (cl, msgId msg)) = Some ENQUEUED \<and>
      logs (snd (enqueue cl msg os w)) = logs w @ [Info ''enqueue'' [msgId msg]])"
  by (auto simp add: enqueue_def io_defs q_defs ds_defs rejects_def jobId_assigned
      split: option.splits)

text \<open>
  The options given name another job id and a delay of ten minutes; message \<open>m6\<close> is
  not in the queue yet.
\<close>

theorem enqueue_write_before_submit_witness:
  "rejects demo 0 = None \<and> rejects demo 1 = None \<and> jobs demo (JStr ''m6'') = None \<and>
   fst (enqueue (JStr ''acme'') (store demo (JStr ''acme'', JStr ''m6''))
          [(''jobId'', JStr ''other''), (''delay'', JNum 600000)] demo) = Inr () \<and>
   trace (snd (enqueue (JStr ''acme'') (store demo (JStr ''acme'', JStr ''m6''))
          [(''jobId'', JStr ''other''), (''delay'', JNum 600000)] demo)) =
     [(DsUpdateStatus (JStr ''acme'') (JStr ''m6'') ENQUEUED None, True),
      (QueueAdd \<lparr>client = JStr ''acme'', messageId = JStr ''m6''\<rparr>
         [(''jobId'', JStr ''m6''), (''delay'', JNum 600000)], True)] \<and>
   jobs (snd (enqueue (JStr ''acme'') (store demo (JStr ''acme'', JStr ''m6''))
          [(''jobId'', JStr ''other''), (''delay'', JNum 600000)] demo)) (JStr ''m6'') \<noteq> None \<and>
   rejects (down_at 0 demo) 0 = Some ''ECONNREFUSED'' \<and>
   fst (enqueue (JStr ''acme'') (store demo (JStr ''acme'', JStr ''m6'')) []
          (down_at 0 demo)) = Inl (Failure ''ECONNREFUSED'')"
proof -
  have m: "msgId (store demo (JStr ''acme'', JStr ''m6'')) = JStr ''m6''"
    by (simp add: demo_def)
  have r: "rejects demo 0 = None" "rejects demo 1 = None"
    "rejects (down_at 0 demo) 0 = Some ''ECONNREFUSED''"
    by (simp_all add: rejects_def demo_def down_at_def)
  have j: "jobs demo (JStr ''m6'') = None"
    by (simp add: demo_def)
  have t: "trace demo = []"
    by (simp add: demo_def)
  from m r j t
    enqueue_write_before_submit [of "JStr ''acme''" "store demo (JStr ''acme'', JStr ''m6'')"
      "[(''jobId'', JStr ''other''), (''delay'', JNum 600000)]" demo]
    enqueue_write_before_submit [of "JStr ''acme''" "store demo (JStr ''acme'', JStr ''m6'')"
      "[]" "down_at 0 demo" "''ECONNREFUSED''"]
  show ?thesis by simp
qed

text \<open>
  C9. When the status write succeeds and the queue's \<^verbatim>\<open>add\<close> fails, \<^verbatim>\<open>enqueue\<close>
  does not throw: the failure is logged and nothing else happens. The status
  \<open>ENQUEUED\<close> written before stays in the data store (there is no further data store
  call), and the queue is unchanged.
\<close>

theorem enqueue_add_failure:
  assumes "rejects w 0 = None" and "rejects w 1 = Some m"
  shows "enqueue cl msg os w =
           (Inr (),
            w\<lparr>store := (store w) ((cl, msgId msg) :=
                 (store w (cl, msgId msg))
                   \<lparr>status := Some ENQUEUED, statusDescription := None\<rparr>),
              trace := trace w @
                [(DsUpdateStatus cl (msgId msg) ENQUEUED None, True),
                 (QueueAdd \<lparr>client = cl, messageId = msgId msg\<rparr>
                    (AList.update ''jobId'' (msgId msg) os), False)],
              logs := logs w @ [ErrorObj (Failure m)]\<rparr>)"
  using assms
  by (simp add: enqueue_def io_defs q_defs ds_defs rejects_def)

theorem enqueue_add_failure_witness:
  "rejects (down_at 1 demo) 0 = None \<and> rejects (down_at 1 demo) 1 = Some ''ECONNREFUSED'' \<and>
   fst (enqueue (JStr ''acme'') (store demo (JStr ''acme'', JStr ''m6'')) [] (down_at 1 demo)) =
     Inr () \<and>
   status (store (snd (enqueue (JStr ''acme'') (store demo (JStr ''acme'', JStr ''m6'')) []
      (down_at 1 demo))) (JStr ''acme'', JStr ''m6'')) = Some ENQUEUED \<and>
   jobs (snd (enqueue (JStr ''acme'') (store demo (JStr ''acme'', JStr ''m6'')) []
      (down_at 1 demo))) (JStr ''m6'') = None \<and>
   logs (snd (enqueue (JStr ''acme'') (store demo (JStr ''acme'', JStr ''m6'')) []
      (down_at 1 demo))) = [ErrorObj (Failure ''ECONNREFUSED'')]"
proof -
  have r: "rejects (down_at 1 demo) 0 = None"
    "rejects (down_at 1 demo) 1 = Some ''ECONNREFUSED''"
    by (simp_all add: rejects_def demo_def down_at_def)
  from r enqueue_add_failure [OF r, of "JStr ''acme''"
      "store demo (JStr ''acme'', JStr ''m6'')" "[]"]
  show ?thesis by (simp add: demo_def down_at_def)
qed

subsection \<open>sendMessage\<close>

text \<open>
  C4, as the spec has it, asks that a successful \<^verbatim>\<open>sendMessage\<close> set the status of
  the message to \<open>COMPLETED\<close>. It does not: for message \<open>m1\<close> of client \<open>acme\<close> the
  read, the send and the write of the send result all succeed, these three are all the
  collaborator calls made, none of them is a status write, and the stored status is
  still \<open>ENQUEUED\<close>.
\<close>

theorem sendMessage_status_counterexample:
  "fst (sendMessage (Some (demo_job ''m1'')) demo) = Inr () \<and>
   trace (snd (sendMessage (Some (demo_job ''m1'')) demo)) =
     [(DsReadMessage (JStr ''acme'') (JStr ''m1''), True),
      (MailSend (Some ''hello''), True),
      (DsUpdateMessageSendResult (JStr ''acme'') (JStr ''m1'')
         \<lparr>smtpMsgId = ''abc'', response = ''250 OK''\<rparr>, True)] \<and>
   status (store (snd (sendMessage (Some (demo_job ''m1'')) demo)) (JStr ''acme'', JStr ''m1'')) =
     Some ENQUEUED \<and>
   status (store (snd (sendMessage (Some (demo_job ''m1'')) demo)) (JStr ''acme'', JStr ''m1'')) \<noteq>
     Some COMPLETED"
  by (simp add: sendMessage_def io_defs q_defs ds_defs demo_def demo_job_def)

text \<open>
  C4, amended. For every job whose data carries a truthy client and a truthy message
  id, when the read from the data store and the send by the mail transport both
  succeed, \<^verbatim>\<open>sendMessage\<close> calls \<^verbatim>\<open>updateMessageSendResult\<close> for (client, message
  id) with \<^verbatim>\<open>{ smtpMsgId, response }\<close> equal to the \<^verbatim>\<open>messageId\<close> and
  \<^verbatim>\<open>response\<close> the transport returned, and when that write is accepted the record
  holds this send result. These are its only collaborator calls: it makes no status
  write, and the stored status is what it was.
\<close>

theorem sendMessage_persists_sendResult:
  assumes "jdata j = Some d" and "truthy (client d)" and "truthy (messageId d)"
    and "rejects w 0 = None" and "rejects w 1 = None"
    and "mailer w (email (store w (client d, messageId d))) = Inr r"
  shows "fst (sendMessage (Some j) w) = Inr () \<and>
         trace (snd (sendMessage (Some j) w)) =
           trace w @
             [(DsReadMessage (client d) (messageId d), True),
              (MailSend (email (store w (client d, messageId d))), True),
              (DsUpdateMessageSendResult (client d) (messageId d)
                 \<lparr>smtpMsgId = smtp_messageId r, response = smtp_response r\<rparr>,
               rejects w 2 = None)] \<and>
         (rejects w 2 = None \<longrightarrow>
            sendResult (store (snd (sendMessage (Some j) w)) (client d, messageId d)) =
              Some \<lparr>smtpMsgId = smtp_messageId r, response = smtp_response r\<rparr>) \<and>
         status (store (snd (sendMessage (Some j) w)) (client d, messageId d)) =
           status (store w (client d, messageId d))"
  using assms
  by (auto simp add: sendMessage_def io_defs q_defs ds_defs rejects_def numeral_2_eq_2
      split: option.splits)

theorem sendMessage_persists_sendResult_witness:
  "jdata (demo_job ''m2'') = Some \<lparr>client = JStr ''acme'', messageId = JStr ''m2''\<rparr> \<and>
   rejects demo 0 = None \<and> rejects demo 1 = None \<and> rejects demo 2 = None \<and>
   mailer demo (email (store demo (JStr ''acme'', JStr ''m2''))) =
     Inr \<lparr>smtp_messageId = ''abc'', smtp_response = ''250 OK''\<rparr> \<and>
   sendResult (store (snd (sendMessage (Some (demo_job ''m2'')) demo)) (JStr ''acme'', JStr ''m2'')) =
     Some \<lparr>smtpMsgId = ''abc'', response = ''250 OK''\<rparr> \<and>
   status (store (snd (sendMessage (Some (demo_job ''m2'')) demo)) (JStr ''acme'', JStr ''m2'')) =
     status (store demo (JStr ''acme'', JStr ''m2''))"
proof -
  have d: "jdata (demo_job ''m2'') = Some \<lparr>client = JStr ''acme'', messageId = JStr ''m2''\<rparr>"
    by (simp add: demo_job_def)
  have r: "rejects demo 0 = None" "rejects demo 1 = None" "rejects demo 2 = None"
    by (simp_all add: rejects_def demo_def)
  have s: "mailer demo (email (store demo (JStr ''acme'', JStr ''m2''))) =
     Inr \<lparr>smtp_messageId = ''abc'', smtp_response = ''250 OK''\<rparr>"
    by (simp add: demo_def)
  from d r s
    sendMessage_persists_sendResult [of "demo_job ''m2''"
      "\<lparr>client = JStr ''acme'', messageId = JStr ''m2''\<rparr>" demo
      "\<lparr>smtp_messageId = ''abc'', smtp_response = ''250 OK''\<rparr>"]
  show ?thesis by simp
qed

text \<open>
  C6. \<^verbatim>\<open>sendMessage\<close> never throws, for any job and any world. For a job whose data
  carries a truthy client and a truthy message id, an error of the read, of the send
  (a rejected call or a failure of the transport) or of the write of the send result
  is caught and logged, twice, as the handler does; the failed call is the last
  collaborator call of \<^verbatim>\<open>sendMessage\<close>, so no data store write follows it, and the
  data store is as it was.
\<close>

theorem sendMessage_swallows_errors:
  "fst (sendMessage jb w) = Inr () \<and>
   (jdata j = Some d \<and> truthy (client d) \<and> truthy (messageId d) \<longrightarrow>
     (rejects w 0 = Some m \<longrightarrow>
        sendMessage (Some j) w =
          (Inr (),
           w\<lparr>trace := trace w @ [(DsReadMessage (client d) (messageId d), False)],
             logs := logs w @
               [Error ''sendMessage'' [client d, messageId d] (Failure m),
                ErrorObj (Failure m)]\<rparr>)) \<and>
     (rejects w 0 = None \<and>
      (rejects w 1 = Some m \<or>
       rejects w 1 = None \<and> mailer w (email (store w (client d, messageId d))) = Inl m) \<longrightarrow>
        sendMessage (Some j) w =
          (Inr (),
           w\<lparr>trace := trace w @
               [(DsReadMessage (client d) (messageId d), True),
                (MailSend (email (store w (client d, messageId d))), False)],
             logs := logs w @
               [Error ''sendMessage'' [client d, messageId d] (Failure m),
                ErrorObj (Failure m)]\<rparr>)) \<and>
     (rejects w 0 = None \<and> rejects w 1 = None \<and>
      mailer w (email (store w (client d, messageId d))) = Inr r \<and>
      rejects w 2 = Some m \<longrightarrow>
        sendMessage (Some j) w =
          (Inr (),
           w\<lparr>trace := trace w @
               [(DsReadMessage (client d) (messageId d), True),
                (MailSend (email (store w (client d, messageId d))), True),
                (DsUpdateMessageSendResult (client d) (messageId d)
                   \<lparr>smtpMsgId = smtp_messageId r, response = smtp_response r\<rparr>, False)],
             logs := logs w @
               [Error ''sendMessage'' [client d, messageId d] (Failure m),
                ErrorObj (Failure m)]\<rparr>)))"
proof -
  have never: "fst (sendMessage jb w) = Inr ()"
    by (auto simp add: sendMessage_def io_defs q_defs ds_defs
        split: option.splits sum.splits prod.splits)
  have caught: "jdata j = Some d \<Longrightarrow> truthy (client d) \<Longrightarrow> truthy (messageId d) \<Longrightarrow> ?thesis"
    using never
    by (auto simp add: sendMessage_def io_defs q_defs ds_defs rejects_def numeral_2_eq_2)
  from never caught show ?thesis by blast
qed

text \<open>
  The read rejected; the send rejected; the write of the send result rejected; the
  transport failing on a deleted body. In each world the call returns normally, and
  only the trace and the log differ afterwards.
\<close>

theorem sendMessage_swallows_errors_witness:
  "rejects (down_at 0 demo) 0 = Some ''ECONNREFUSED'' \<and>
   rejects (down_at 1 demo) 1 = Some ''ECONNREFUSED'' \<and>
   rejects (down_at 2 demo) 2 = Some ''ECONNREFUSED'' \<and>
   sendMessage (Some (demo_job ''m1'')) (down_at 0 demo) =
     (Inr (),
      down_at 0 demo
        \<lparr>trace := [(DsReadMessage (JStr ''acme'') (JStr ''m1''), False)],
         logs := [Error ''sendMessage'' [JStr ''acme'', JStr ''m1''] (Failure ''ECONNREFUSED''),
                  ErrorObj (Failure ''ECONNREFUSED'')]\<rparr>) \<and>
   sendMessage (Some (demo_job ''m1'')) (down_at 1 demo) =
     (Inr (),
      down_at 1 demo
        \<lparr>trace := [(DsReadMessage (JStr ''acme'') (JStr ''m1''), True),
                   (MailSend (Some ''hello''), False)],
         logs := [Error ''sendMessage'' [JStr ''acme'', JStr ''m1''] (Failure ''ECONNREFUSED''),
                  ErrorObj (Failure ''ECONNREFUSED'')]\<rparr>) \<and>
   sendMessage (Some (demo_job ''m1'')) (down_at 2 demo) =
     (Inr (),
      down_at 2 demo
        \<lparr>trace := [(DsReadMessage (JStr ''acme'') (JStr ''m1''), True),
                   (MailSend (Some ''hello''), True),
                   (DsUpdateMessageSendResult (JStr ''acme'') (JStr ''m1'')
                      \<lparr>smtpMsgId = ''abc'', response = ''250 OK''\<rparr>, False)],
         logs := [Error ''sendMessage'' [JStr ''acme'', JStr ''m1''] (Failure ''ECONNREFUSED''),
                  ErrorObj (Failure ''ECONNREFUSED'')]\<rparr>) \<and>
   mailer (scrubbed demo) (email (store (scrubbed demo) (JStr ''acme'', JStr ''m1''))) =
     Inl ''No envelope'' \<and>
   sendMessage (Some (demo_job ''m1'')) (scrubbed demo) =
     (Inr (),
      scrubbed demo
        \<lparr>trace := [(DsReadMessage (JStr ''acme'') (JStr ''m1''), True), (MailSend None, False)],
         logs := [Error ''sendMessage'' [JStr ''acme'', JStr ''m1''] (Failure ''No envelope''),
                  ErrorObj (Failure ''No envelope'')]\<rparr>)"
proof -
  have d: "jdata (demo_job ''m1'') = Some \<lparr>client = JStr ''acme'', messageId = JStr ''m1''\<rparr>"
    by (simp add: demo_job_def)
  have n: "rejects (scrubbed demo) 0 = None" "rejects (scrubbed demo) 1 = None"
    "mailer (scrubbed demo) (email (store (scrubbed demo) (JStr ''acme'', JStr ''m1''))) =
       Inl ''No envelope''"
    "email (store (scrubbed demo) (JStr ''acme'', JStr ''m1'')) = None"
    "trace (scrubbed demo) = []" "logs (scrubbed demo) = []"
    by (simp_all add: rejects_def demo_def scrubbed_def)
  have r0: "rejects (down_at 0 demo) 0 = Some ''ECONNREFUSED''"
    and r1: "rejects (down_at 1 demo) 0 = None" "rejects (down_at 1 demo) 1 = Some ''ECONNREFUSED''"
    and r2: "rejects (down_at 2 demo) 0 = None" "rejects (down_at 2 demo) 1 = None"
      "rejects (down_at 2 demo) 2 = Some ''ECONNREFUSED''"
    by (simp_all add: rejects_def demo_def down_at_def)
  have s: "mailer (down_at 2 demo) (email (store (down_at 2 demo) (JStr ''acme'', JStr ''m1''))) =
     Inr \<lparr>smtp_messageId = ''abc'', smtp_response = ''250 OK''\<rparr>"
    "email (store (down_at 1 demo) (JStr ''acme'', JStr ''m1'')) = Some ''hello''"
    "email (store (down_at 2 demo) (JStr ''acme'', JStr ''m1'')) = Some ''hello''"
    by (simp_all add: demo_def down_at_def)
  have e: "store (down_at 0 demo) = store demo" "store (down_at 1 demo) = store demo"
    "store (down_at 2 demo) = store demo" "logs (down_at 0 demo) = []"
    "logs (down_at 1 demo) = []" "logs (down_at 2 demo) = []"
    "trace (down_at 0 demo) = []" "trace (down_at 1 demo) = []" "trace (down_at 2 demo) = []"
    by (simp_all add: demo_def down_at_def)
  from d n r0 r1 r2 s e
    sendMessage_swallows_errors [of "Some (demo_job ''m1'')" "scrubbed demo" "demo_job ''m1''"
      "\<lparr>client = JStr ''acme'', messageId = JStr ''m1''\<rparr>" "''No envelope''"]
    sendMessage_swallows_errors [of "Some (demo_job ''m1'')" "down_at 0 demo" "demo_job ''m1''"
      "\<lparr>client = JStr ''acme'', messageId = JStr ''m1''\<rparr>" "''ECONNREFUSED''"]
    sendMessage_swallows_errors [of "Some (demo_job ''m1'')" "down_at 1 demo" "demo_job ''m1''"
      "\<lparr>client = JStr ''acme'', messageId = JStr ''m1''\<rparr>" "''ECONNREFUSED''"]
    sendMessage_swallows_errors [of "Some (demo_job ''m1'')" "down_at 2 demo" "demo_job ''m1''"
      "\<lparr>client = JStr ''acme'', messageId = JStr ''m1''\<rparr>" "''ECONNREFUSED''"
      "\<lparr>smtp_messageId = ''abc'', smtp_response = ''250 OK''\<rparr>"]
  show ?thesis by simp
qed

subsection \<open>updateContent\<close>

lemma updateContent_returns: "\<exists>jb'. fst (updateContent jb w) = Inr jb'"
  by (auto simp add: updateContent_def io_defs q_defs ds_defs
      split: option.splits sum.splits prod.splits)

lemma updateContent_scrubs:
  assumes "jdata j = Some d" and "truthy (client d)" and "truthy (messageId d)"
    and "rejects w 0 = None" and "rejects w 1 = None"
  shows "updateContent (Some j) w =
           (Inr (Some (j\<lparr>jdata := None\<rparr>)),
            w\<lparr>store := (store w) ((client d, messageId d) :=
                 (store w (client d, messageId d))\<lparr>email := None\<rparr>),
              jobs := (case jobs w (jid j) of
                         Some qj \<Rightarrow> (jobs w) (jid j \<mapsto> qj\<lparr>qdata := None\<rparr>)
                       | None \<Rightarrow> jobs w),
              trace := trace w @
                [(DsDeleteMessageEmail (client d) (messageId d), True),
                 (JobUpdate (jid j) None, True)]\<rparr>)"
  using assms
  by (auto simp add: updateContent_def io_defs q_defs ds_defs rejects_def
      split: option.splits)

lemma updateContent_again:
  assumes "rejects w 0 = None" and "rejects w 1 = None"
    and "updateContent jb w = (Inr jb', w')"
  shows "updateContent jb' w' = (Inr jb', w')"
  using assms
  by (auto simp add: updateContent_def io_defs q_defs ds_defs rejects_def
      split: option.splits if_splits)

lemma updateContent_keeps_deleted:
  "email (store w k) = None \<Longrightarrow> email (store (snd (updateContent jb w)) k) = None"
  by (auto simp add: updateContent_def io_defs q_defs ds_defs split: option.splits)

lemma updateContent_absorbs:
  assumes "jdata j = Some d" and "truthy (client d)" and "truthy (messageId d)"
  shows "(rejects w 0 = Some m \<longrightarrow>
            updateContent (Some j) w =
              (Inr (Some j),
               w\<lparr>trace := trace w @ [(DsDeleteMessageEmail (client d) (messageId d), False)],
                 logs := logs w @ [Error ''updateContent'' [jid j] (Failure m)]\<rparr>)) \<and>
         (rejects w 0 = None \<and> rejects w 1 = Some m \<longrightarrow>
            updateContent (Some j) w =
              (Inr (Some j),
               w\<lparr>store := (store w) ((client d, messageId d) :=
                    (store w (client d, messageId d))\<lparr>email := None\<rparr>),
                 trace := trace w @
                   [(DsDeleteMessageEmail (client d) (messageId d), True),
                    (JobUpdate (jid j) None, False)],
                 logs := logs w @ [Error ''updateContent'' [jid j] (Failure m)]\<rparr>))"
  using assms
  by (auto simp add: updateContent_def io_defs q_defs ds_defs rejects_def)

lemma updateContent_clears_only:
  assumes "jdata j = Some d" and "\<not> (truthy (messageId d) \<and> truthy (client d))"
  shows "(rejects w 0 = None \<longrightarrow>
            updateContent (Some j) w =
              (Inr (Some (j\<lparr>jdata := None\<rparr>)),
               w\<lparr>jobs := (case jobs w (jid j) of
                            Some qj \<Rightarrow> (jobs w) (jid j \<mapsto> qj\<lparr>qdata := None\<rparr>)
                          | None \<Rightarrow> jobs w),
                 trace := trace w @ [(JobUpdate (jid j) None, True)]\<rparr>)) \<and>
         (rejects w 0 = Some m \<longrightarrow>
            updateContent (Some j) w =
              (Inr (Some j),
               w\<lparr>trace := trace w @ [(JobUpdate (jid j) None, False)],
                 logs := logs w @ [Error ''updateContent'' [jid j] (Failure m)]\<rparr>))"
  using assms
  by (auto simp add: updateContent_def io_defs q_defs ds_defs rejects_def
      split: option.splits)

lemma updateContent_no_payload:
  "updateContent None w = (Inr None, w) \<and>
   (jdata j = None \<longrightarrow> updateContent (Some j) w = (Inr (Some j), w))"
  by (simp add: updateContent_def io_defs)

text \<open>
  C7. \<^verbatim>\<open>updateContent\<close> never throws, for any job, any world and any fault plan.
  For a job whose data carries a truthy client and a truthy message id, a first call
  whose two collaborator calls are accepted deletes the stored email body of (client,
  message id) and clears the payload of the job, in the queue and in the job object.
  A second call on the job as the first one left it then produces no error and changes
  nothing; and whatever happens in a call, content that is deleted stays deleted. A
  failure of the deletion or of the payload update is caught and only logged. For a
  job whose data lacks a truthy client or a truthy message id, the call makes no data
  store call and still clears the payload, by the one call \<^verbatim>\<open>job.update(null)\<close>, whose
  failure is caught and logged as well. For no job at all, and for a job without data,
  the call does nothing.
\<close>

theorem updateContent_idempotent:
  "(\<exists>jb'. fst (updateContent jb w) = Inr jb') \<and>
   (jdata j = Some d \<and> truthy (client d) \<and> truthy (messageId d) \<and>
    rejects w 0 = None \<and> rejects w 1 = None \<longrightarrow>
      updateContent (Some j) w =
        (Inr (Some (j\<lparr>jdata := None\<rparr>)),
         w\<lparr>store := (store w) ((client d, messageId d) :=
              (store w (client d, messageId d))\<lparr>email := None\<rparr>),
           jobs := (case jobs w (jid j) of
                      Some qj \<Rightarrow> (jobs w) (jid j \<mapsto> qj\<lparr>qdata := None\<rparr>)
                    | None \<Rightarrow> jobs w),
           trace := trace w @
             [(DsDeleteMessageEmail (client d) (messageId d), True),
              (JobUpdate (jid j) None, True)]\<rparr>)) \<and>
   (rejects w 0 = None \<and> rejects w 1 = None \<and> updateContent jb w = (Inr jb1, w1) \<longrightarrow>
      updateContent jb1 w1 = (Inr jb1, w1)) \<and>
   (email (store w k) = None \<longrightarrow> email (store (snd (updateContent jb w)) k) = None) \<and>
   (jdata j = Some d \<and> truthy (client d) \<and> truthy (messageId d) \<longrightarrow>
      (rejects w 0 = Some m \<longrightarrow>
         updateContent (Some j) w =
           (Inr (Some j),
            w\<lparr>trace := trace w @ [(DsDeleteMessageEmail (client d) (messageId d), False)],
              logs := logs w @ [Error ''updateContent'' [jid j] (Failure m)]\<rparr>)) \<and>
      (rejects w 0 = None \<and> rejects w 1 = Some m \<longrightarrow>
         updateContent (Some j) w =
           (Inr (Some j),
            w\<lparr>store := (store w) ((client d, messageId d) :=
                 (store w (client d, messageId d))\<lparr>email := None\<rparr>),
              trace := trace w @
                [(DsDeleteMessageEmail (client d) (messageId d), True),
                 (JobUpdate (jid j) None, False)],
              logs := logs w @ [Error ''updateContent'' [jid j] (Failure m)]\<rparr>))) \<and>
   (jdata j = Some d \<and> \<not> (truthy (messageId d) \<and> truthy (client d)) \<longrightarrow>
      (rejects w 0 = None \<longrightarrow>
         updateContent (Some j) w =
           (Inr (Some (j\<lparr>jdata := None\<rparr>)),
            w\<lparr>jobs := (case jobs w (jid j) of
                         Some qj \<Rightarrow> (jobs w) (jid j \<mapsto> qj\<lparr>qdata := None\<rparr>)
                       | None \<Rightarrow> jobs w),
              trace := trace w @ [(JobUpdate (jid j) None, True)]\<rparr>)) \<and>
      (rejects w 0 = Some m \<longrightarrow>
         updateContent (Some j) w =
           (Inr (Some j),
            w\<lparr>trace := trace w @ [(JobUpdate (jid j) None, False)],
              logs := logs w @ [Error ''updateContent'' [jid j] (Failure m)]\<rparr>))) \<and>
   updateContent None w = (Inr None, w) \<and>
   (jdata j = None \<longrightarrow> updateContent (Some j) w = (Inr (Some j), w))"
proof (intro conjI)
  show "\<exists>jb'. fst (updateContent jb w) = Inr jb'"
    by (rule updateContent_returns)
  show "rejects w 0 = None \<and> rejects w 1 = None \<and> updateContent jb w = (Inr jb1, w1) \<longrightarrow>
      updateContent jb1 w1 = (Inr jb1, w1)"
    by (intro impI, elim conjE, rule updateContent_again)
  show "email (store w k) = None \<longrightarrow> email (store (snd (updateContent jb w)) k) = None"
    by (intro impI, rule updateContent_keeps_deleted)
  show "jdata j = Some d \<and> truthy (client d) \<and> truthy (messageId d) \<longrightarrow>
      (rejects w 0 = Some m \<longrightarrow>
         updateContent (Some j) w =
           (Inr (Some j),
            w\<lparr>trace := trace w @ [(DsDeleteMessageEmail (client d) (messageId d), False)],
              logs := logs w @ [Error ''updateContent'' [jid j] (Failure m)]\<rparr>)) \<and>
      (rejects w 0 = None \<and> rejects w 1 = Some m \<longrightarrow>
         updateContent (Some j) w =
           (Inr (Some j),
            w\<lparr>store := (store w) ((client d, messageId d) :=
                 (store w (client d, messageId d))\<lparr>email := None\<rparr>),
              trace := trace w @
                [(DsDeleteMessageEmail (client d) (messageId d), True),
                 (JobUpdate (jid j) None, False)],
              logs := logs w @ [Error ''updateContent'' [jid j] (Failure m)]\<rparr>))"
    by (intro impI, elim conjE, rule updateContent_absorbs)
  show "jdata j = Some d \<and> \<not> (truthy (messageId d) \<and> truthy (client d)) \<longrightarrow>
      (rejects w 0 = None \<longrightarrow>
         updateContent (Some j) w =
           (Inr (Some (j\<lparr>jdata := None\<rparr>)),
            w\<lparr>jobs := (case jobs w (jid j) of
                         Some qj \<Rightarrow> (jobs w) (jid j \<mapsto> qj\<lparr>qdata := None\<rparr>)
                       | None \<Rightarrow> jobs w),
              trace := trace w @ [(JobUpdate (jid j) None, True)]\<rparr>)) \<and>
      (rejects w 0 = Some m \<longrightarrow>
         updateContent (Some j) w =
           (Inr (Some j),
            w\<lparr>trace := trace w @ [(JobUpdate (jid j) None, False)],
              logs := logs w @ [Error ''updateContent'' [jid j] (Failure m)]\<rparr>))"
    by (intro impI, elim conjE, rule updateContent_clears_only)
  show "updateContent None w = (Inr None, w)"
    using updateContent_no_payload [of w j] by (rule conjunct1)
  show "jdata j = None \<longrightarrow> updateContent (Some j) w = (Inr (Some j), w)"
    using updateContent_no_payload [of w j] by (rule conjunct2)
qed (intro impI, elim conjE, rule updateContent_scrubs)

text \<open>
  Job \<open>m1\<close>: the first call deletes the body \<open>hello\<close> and clears the payload, the
  second call on the cleared job changes nothing. With the deletion rejected, the call
  returns normally and logs. Job \<open>m4\<close>, whose client is empty: the payload is cleared
  and the data store is not called. Job \<open>m5\<close>, without data, and no job: nothing
  happens.
\<close>

theorem updateContent_idempotent_witness:
  "jdata (demo_job ''m1'') = Some \<lparr>client = JStr ''acme'', messageId = JStr ''m1''\<rparr> \<and>
   rejects demo 0 = None \<and> rejects demo 1 = None \<and>
   email (store demo (JStr ''acme'', JStr ''m1'')) = Some ''hello'' \<and>
   fst (updateContent (Some (demo_job ''m1'')) demo) =
     Inr (Some \<lparr>jid = JStr ''m1'', jdata = None\<rparr>) \<and>
   email (store (snd (updateContent (Some (demo_job ''m1'')) demo)) (JStr ''acme'', JStr ''m1'')) =
     None \<and>
   map_option qdata (jobs (snd (updateContent (Some (demo_job ''m1'')) demo)) (JStr ''m1'')) =
     Some None \<and>
   updateContent (Some \<lparr>jid = JStr ''m1'', jdata = None\<rparr>)
       (snd (updateContent (Some (demo_job ''m1'')) demo)) =
     (Inr (Some \<lparr>jid = JStr ''m1'', jdata = None\<rparr>),
      snd (updateContent (Some (demo_job ''m1'')) demo)) \<and>
   rejects (down_at 0 demo) 0 = Some ''ECONNREFUSED'' \<and>
   updateContent (Some (demo_job ''m1'')) (down_at 0 demo) =
     (Inr (Some (demo_job ''m1'')),
      down_at 0 demo
        \<lparr>trace := [(DsDeleteMessageEmail (JStr ''acme'') (JStr ''m1''), False)],
         logs := [Error ''updateContent'' [JStr ''m1''] (Failure ''ECONNREFUSED'')]\<rparr>) \<and>
   \<not> (truthy (JStr ''m4'') \<and> truthy (JStr [])) \<and>
   updateContent
       (Some \<lparr>jid = JStr ''m4'',
              jdata = Some \<lparr>client = JStr [], messageId = JStr ''m4''\<rparr>\<rparr>) demo =
     (Inr (Some \<lparr>jid = JStr ''m4'', jdata = None\<rparr>),
      demo\<lparr>jobs := (jobs demo) (JStr ''m4'' \<mapsto> \<lparr>qdata = None, qstate = ''delayed''\<rparr>),
           trace := [(JobUpdate (JStr ''m4'') None, True)]\<rparr>) \<and>
   updateContent
       (Some \<lparr>jid = JStr ''m4'',
              jdata = Some \<lparr>client = JStr [], messageId = JStr ''m4''\<rparr>\<rparr>)
       (down_at 0 demo) =
     (Inr (Some \<lparr>jid = JStr ''m4'',
                jdata = Some \<lparr>client = JStr [], messageId = JStr ''m4''\<rparr>\<rparr>),
      down_at 0 demo
        \<lparr>trace := [(JobUpdate (JStr ''m4'') None, False)],
         logs := [Error ''updateContent'' [JStr ''m4''] (Failure ''ECONNREFUSED'')]\<rparr>) \<and>
   updateContent None demo = (Inr None, demo) \<and>
   updateContent (Some \<lparr>jid = JStr ''m5'', jdata = None\<rparr>) demo =
     (Inr (Some \<lparr>jid = JStr ''m5'', jdata = None\<rparr>), demo)"
proof -
  let ?j4 = "\<lparr>jid = JStr ''m4'',
              jdata = Some \<lparr>client = JStr [], messageId = JStr ''m4''\<rparr>\<rparr>"
  let ?d4 = "\<lparr>client = JStr [], messageId = JStr ''m4''\<rparr>"
  let ?j5 = "\<lparr>jid = JStr ''m5'', jdata = None :: job_data option\<rparr>"
  let ?j = "demo_job ''m1''"
  let ?d = "\<lparr>client = JStr ''acme'', messageId = JStr ''m1''\<rparr>"
  let ?w1 = "demo\<lparr>store := (store demo) ((client ?d, messageId ?d) :=
                 (store demo (client ?d, messageId ?d))\<lparr>email := None\<rparr>),
               jobs := (case jobs demo (jid ?j) of
                          Some qj \<Rightarrow> (jobs demo) (jid ?j \<mapsto> qj\<lparr>qdata := None\<rparr>)
                        | None \<Rightarrow> jobs demo),
               trace := trace demo @
                 [(DsDeleteMessageEmail (client ?d) (messageId ?d), True),
                  (JobUpdate (jid ?j) None, True)]\<rparr>"
  have d: "jdata ?j = Some ?d" "truthy (client ?d)" "truthy (messageId ?d)"
    by (simp_all add: demo_job_def)
  have r: "rejects demo 0 = None" "rejects demo 1 = None"
    by (simp_all add: rejects_def demo_def)
  have r0: "rejects (down_at 0 demo) 0 = Some ''ECONNREFUSED''"
    by (simp add: rejects_def demo_def down_at_def)
  have s: "email (store demo (JStr ''acme'', JStr ''m1'')) = Some ''hello''"
    by (simp add: demo_def)
  have first: "updateContent (Some ?j) demo = (Inr (Some (?j\<lparr>jdata := None\<rparr>)), ?w1)"
    using updateContent_idempotent [of "Some ?j" demo ?j ?d] d r by blast
  have second: "updateContent (Some (?j\<lparr>jdata := None\<rparr>)) ?w1 =
      (Inr (Some (?j\<lparr>jdata := None\<rparr>)), ?w1)"
    using updateContent_idempotent [of "Some ?j" demo _ _ "Some (?j\<lparr>jdata := None\<rparr>)" ?w1]
      r first by blast
  have failed: "updateContent (Some ?j) (down_at 0 demo) =
      (Inr (Some ?j),
       down_at 0 demo
         \<lparr>trace := trace (down_at 0 demo) @
            [(DsDeleteMessageEmail (client ?d) (messageId ?d), False)],
          logs := logs (down_at 0 demo) @
            [Error ''updateContent'' [jid ?j] (Failure ''ECONNREFUSED'')]\<rparr>)"
    using updateContent_idempotent [of "Some ?j" "down_at 0 demo" ?j ?d _ _ _ "''ECONNREFUSED''"]
      d r0 by blast
  have w1: "email (store ?w1 (JStr ''acme'', JStr ''m1'')) = None"
    "map_option qdata (jobs ?w1 (JStr ''m1'')) = Some None"
    by (simp_all add: demo_def demo_job_def)
  have t: "trace (down_at 0 demo) = []" "logs (down_at 0 demo) = []"
    "jid ?j = JStr ''m1''" "?j\<lparr>jdata := None\<rparr> = \<lparr>jid = JStr ''m1'', jdata = None\<rparr>"
    by (simp_all add: demo_def down_at_def demo_job_def)
  have d4: "jdata ?j4 = Some ?d4" "\<not> (truthy (messageId ?d4) \<and> truthy (client ?d4))"
    by simp_all
  have cleared: "updateContent (Some ?j4) demo =
      (Inr (Some (?j4\<lparr>jdata := None\<rparr>)),
       demo\<lparr>jobs := (case jobs demo (jid ?j4) of
                       Some qj \<Rightarrow> (jobs demo) (jid ?j4 \<mapsto> qj\<lparr>qdata := None\<rparr>)
                     | None \<Rightarrow> jobs demo),
            trace := trace demo @ [(JobUpdate (jid ?j4) None, True)]\<rparr>)"
    using updateContent_idempotent [of "Some ?j4" demo ?j4 ?d4] d4 r by blast
  have kept: "updateContent (Some ?j4) (down_at 0 demo) =
      (Inr (Some ?j4),
       down_at 0 demo
         \<lparr>trace := trace (down_at 0 demo) @ [(JobUpdate (jid ?j4) None, False)],
          logs := logs (down_at 0 demo) @
            [Error ''updateContent'' [jid ?j4] (Failure ''ECONNREFUSED'')]\<rparr>)"
    using updateContent_idempotent [of "Some ?j4" "down_at 0 demo" ?j4 ?d4 _ _ _
        "''ECONNREFUSED''"] d4 r0
    by blast
  have none: "updateContent None demo = (Inr None, demo)"
    "updateContent (Some ?j5) demo = (Inr (Some ?j5), demo)"
    using updateContent_idempotent [of None demo ?j5] by simp_all
  have t4: "jobs demo (JStr ''m4'') = Some \<lparr>qdata = Some ?d4, qstate = ''delayed''\<rparr>"
    "trace demo = []"
    by (simp_all add: demo_def)
  have part1: "jdata (demo_job ''m1'') = Some \<lparr>client = JStr ''acme'', messageId = JStr ''m1''\<rparr> \<and>
   rejects demo 0 = None \<and> rejects demo 1 = None \<and>
   email (store demo (JStr ''acme'', JStr ''m1'')) = Some ''hello'' \<and>
   fst (updateContent (Some (demo_job ''m1'')) demo) =
     Inr (Some \<lparr>jid = JStr ''m1'', jdata = None\<rparr>) \<and>
   email (store (snd (updateContent (Some (demo_job ''m1'')) demo)) (JStr ''acme'', JStr ''m1'')) =
     None \<and>
   map_option qdata (jobs (snd (updateContent (Some (demo_job ''m1'')) demo)) (JStr ''m1'')) =
     Some None \<and>
   updateContent (Some \<lparr>jid = JStr ''m1'', jdata = None\<rparr>)
       (snd (updateContent (Some (demo_job ''m1'')) demo)) =
     (Inr (Some \<lparr>jid = JStr ''m1'', jdata = None\<rparr>),
      snd (updateContent (Some (demo_job ''m1'')) demo)) \<and>
   rejects (down_at 0 demo) 0 = Some ''ECONNREFUSED'' \<and>
   updateContent (Some (demo_job ''m1'')) (down_at 0 demo) =
     (Inr (Some (demo_job ''m1'')),
      down_at 0 demo
        \<lparr>trace := [(DsDeleteMessageEmail (JStr ''acme'') (JStr ''m1''), False)],
         logs := [Error ''updateContent'' [JStr ''m1''] (Failure ''ECONNREFUSED'')]\<rparr>)"
    unfolding first fst_conv snd_conv
    using d(1) r r0 s second failed w1 t by simp
  have part2: "\<not> (truthy (JStr ''m4'') \<and> truthy (JStr [])) \<and>
   updateContent (Some ?j4) demo =
     (Inr (Some \<lparr>jid = JStr ''m4'', jdata = None\<rparr>),
      demo\<lparr>jobs := (jobs demo) (JStr ''m4'' \<mapsto> \<lparr>qdata = None, qstate = ''delayed''\<rparr>),
           trace := [(JobUpdate (JStr ''m4'') None, True)]\<rparr>) \<and>
   updateContent (Some ?j4) (down_at 0 demo) =
     (Inr (Some ?j4),
      down_at 0 demo
        \<lparr>trace := [(JobUpdate (JStr ''m4'') None, False)],
         logs := [Error ''updateContent'' [JStr ''m4''] (Failure ''ECONNREFUSED'')]\<rparr>) \<and>
   updateContent None demo = (Inr None, demo) \<and>
   updateContent (Some ?j5) demo = (Inr (Some ?j5), demo)"
    using cleared kept none t4 t by simp
  from part1 part2 show ?thesis by blast
qed

end
